theory Spec2Isabelle
  imports Main "HOL-Library.Word"
begin

section \<open>Data model of \<^verbatim>\<open>products.hpp\<close>\<close>

subsection \<open>Enumerations\<close>

text \<open>
  The enumerations of the header are unscoped C++ enums without initialisers: the
  enumerators are numbered 0, 1, 2, ... in the order they are written. A value of such
  a type is an integer, and the \<^verbatim>\<open>switch\<close> statements of the label functions
  have a \<^verbatim>\<open>default\<close> branch for the integers that are no enumerator. The model
  therefore keeps the integer, and names the enumerators.
\<close>

type_synonym ProductType = int

definition IRSWAP :: ProductType where "IRSWAP = 0"
definition BOND :: ProductType where "BOND = 1"

type_synonym BondIdType = int

definition CUSIP :: BondIdType where "CUSIP = 0"
definition ISIN :: BondIdType where "ISIN = 1"

type_synonym DayCountConvention = int

definition THIRTY_THREE_SIXTY :: DayCountConvention where "THIRTY_THREE_SIXTY = 0"
definition ACT_THREE_SIXTY :: DayCountConvention where "ACT_THREE_SIXTY = 1"

type_synonym PaymentFrequency = int

definition QUARTERLY :: PaymentFrequency where "QUARTERLY = 0"
definition SEMI_ANNUAL :: PaymentFrequency where "SEMI_ANNUAL = 1"
definition ANNUAL :: PaymentFrequency where "ANNUAL = 2"

type_synonym FloatingIndex = int

definition LIBOR :: FloatingIndex where "LIBOR = 0"
definition EURIBOR :: FloatingIndex where "EURIBOR = 1"

type_synonym FloatingIndexTenor = int

definition TENOR_1M :: FloatingIndexTenor where "TENOR_1M = 0"
definition TENOR_3M :: FloatingIndexTenor where "TENOR_3M = 1"
definition TENOR_6M :: FloatingIndexTenor where "TENOR_6M = 2"
definition TENOR_12M :: FloatingIndexTenor where "TENOR_12M = 3"

type_synonym Currency = int

definition USD :: Currency where "USD = 0"
definition EUR :: Currency where "EUR = 1"
definition GBP :: Currency where "GBP = 2"

type_synonym SwapType = int

definition STANDARD :: SwapType where "STANDARD = 0"
definition FORWARD :: SwapType where "FORWARD = 1"
definition IMM :: SwapType where "IMM = 2"
definition MAC :: SwapType where "MAC = 3"
definition BASIS :: SwapType where "BASIS = 4"

type_synonym SwapLegType = int

definition OUTRIGHT :: SwapLegType where "OUTRIGHT = 0"
definition CURVE :: SwapLegType where "CURVE = 1"
definition FLY :: SwapLegType where "FLY = 2"

subsection \<open>Scalars of the C++ library\<close>

text \<open>
  \<^verbatim>\<open>std::chrono::year_month_day\<close> stores a year as a signed 16-bit integer and a month
  and a day as unsigned 8-bit integers; it holds any such triple, also one that is no
  day of the calendar. \<^verbatim>\<open>double\<close> is the 64-bit pattern of IEEE 754 and
  \<^verbatim>\<open>int\<close> is a 32-bit two's complement integer.
\<close>

record year_month_day =
  year :: "16 word"
  month :: "8 word"
  day :: "8 word"

type_synonym double = "64 word"

type_synonym int32 = "32 word"

subsection \<open>Classes\<close>

record Product =
  productId :: string
  productType :: ProductType

text \<open>
  \<^verbatim>\<open>Bond\<close> declares a private member \<^verbatim>\<open>productId\<close> of its own, next to the
  one of \<^verbatim>\<open>Product\<close> (which is private to \<^verbatim>\<open>Product\<close>). No member function
  reads or writes it; it is the field \<open>Bond_productId\<close> here.
\<close>

record Bond = Product +
  Bond_productId :: string
  bondIdType :: BondIdType
  ticker :: string
  coupon :: double
  maturityDate :: year_month_day

record IRSwap = Product +
  fixedLegDayCountConvention :: DayCountConvention
  floatingLegDayCountConvention :: DayCountConvention
  fixedLegPaymentFrequency :: PaymentFrequency
  floatingIndex :: FloatingIndex
  floatingIndexTenor :: FloatingIndexTenor
  effectiveDate :: year_month_day
  terminationDate :: year_month_day
  currency :: Currency
  termYears :: int32
  swapType :: SwapType
  swapLegType :: SwapLegType

subsection \<open>Constructors\<close>

text \<open>
  A constructor of the header default-initialises the members and then assigns them in
  its body; the model is the object as it is when the constructor returns.
\<close>

definition Product_ctor :: "string \<Rightarrow> ProductType \<Rightarrow> Product" where
  "Product_ctor productId' productType' =
     \<lparr>productId = productId', productType = productType'\<rparr>"

definition Bond_ctor ::
  "string \<Rightarrow> BondIdType \<Rightarrow> string \<Rightarrow> double \<Rightarrow> year_month_day \<Rightarrow> Bond" where
  "Bond_ctor productId' bondIdType' ticker' coupon' maturityDate' =
     Product.extend (Product_ctor productId' BOND)
       (Bond.fields [] bondIdType' ticker' coupon' maturityDate')"

definition IRSwap_ctor ::
  "string \<Rightarrow> DayCountConvention \<Rightarrow> DayCountConvention \<Rightarrow> PaymentFrequency \<Rightarrow>
   FloatingIndex \<Rightarrow> FloatingIndexTenor \<Rightarrow> year_month_day \<Rightarrow> year_month_day \<Rightarrow>
   Currency \<Rightarrow> int32 \<Rightarrow> SwapType \<Rightarrow> SwapLegType \<Rightarrow> IRSwap" where
  "IRSwap_ctor productId' fixedLegDayCountConvention' floatingLegDayCountConvention'
      fixedLegPaymentFrequency' floatingIndex' floatingIndexTenor' effectiveDate'
      terminationDate' currency' termYears' swapType' swapLegType' =
     (Product.extend (Product_ctor productId' IRSWAP)
        (IRSwap.fields fixedLegDayCountConvention' floatingLegDayCountConvention'
           fixedLegPaymentFrequency' floatingIndex' floatingIndexTenor' effectiveDate'
           terminationDate' currency' termYears' swapType' swapLegType'))
     \<lparr>effectiveDate := effectiveDate', terminationDate := terminationDate'\<rparr>"

text \<open>
  The defaulted constructors \<^verbatim>\<open>Product() = default\<close>, \<^verbatim>\<open>Bond() = default\<close> and
  \<^verbatim>\<open>IRSwap() = default\<close> are not user-provided, so an object that is
  value-initialised through them (\<^verbatim>\<open>Bond()\<close>, \<^verbatim>\<open>Bond{}\<close>, the element that
  \<^verbatim>\<open>std::map::operator[]\<close> or \<^verbatim>\<open>std::vector<Bond>(n)\<close> creates) is
  zero-initialised first: every scalar member is 0 and every string is empty. (An
  automatic object declared \<^verbatim>\<open>Bond b;\<close> has indeterminate scalars instead; that
  object is not modelled.)
\<close>

definition year_month_day_zero :: year_month_day where
  "year_month_day_zero = \<lparr>year = 0, month = 0, day = 0\<rparr>"

definition Product_default :: Product where
  "Product_default = \<lparr>productId = [], productType = 0\<rparr>"

definition Bond_default :: Bond where
  "Bond_default =
     Product.extend Product_default (Bond.fields [] 0 [] 0 year_month_day_zero)"

definition IRSwap_default :: IRSwap where
  "IRSwap_default =
     Product.extend Product_default
       (IRSwap.fields 0 0 0 0 0 year_month_day_zero year_month_day_zero 0 0 0 0)"

subsection \<open>Accessors\<close>

definition GetProductId :: "'a Product_scheme \<Rightarrow> string" where
  "GetProductId this = productId this"

definition GetProductType :: "'a Product_scheme \<Rightarrow> ProductType" where
  "GetProductType this = productType this"

definition GetTicker :: "Bond \<Rightarrow> string" where
  "GetTicker this = ticker this"

definition GetCoupon :: "Bond \<Rightarrow> double" where
  "GetCoupon this = coupon this"

definition GetMaturityDate :: "Bond \<Rightarrow> year_month_day" where
  "GetMaturityDate this = maturityDate this"

definition GetBondIdType :: "Bond \<Rightarrow> BondIdType" where
  "GetBondIdType this = bondIdType this"

definition GetFixedLegDayCountConvention :: "IRSwap \<Rightarrow> DayCountConvention" where
  "GetFixedLegDayCountConvention this = fixedLegDayCountConvention this"

definition GetFloatingLegDayCountConvention :: "IRSwap \<Rightarrow> DayCountConvention" where
  "GetFloatingLegDayCountConvention this = floatingLegDayCountConvention this"

definition GetFixedLegPaymentFrequency :: "IRSwap \<Rightarrow> PaymentFrequency" where
  "GetFixedLegPaymentFrequency this = fixedLegPaymentFrequency this"

definition GetFloatingIndex :: "IRSwap \<Rightarrow> FloatingIndex" where
  "GetFloatingIndex this = floatingIndex this"

definition GetFloatingIndexTenor :: "IRSwap \<Rightarrow> FloatingIndexTenor" where
  "GetFloatingIndexTenor this = floatingIndexTenor this"

definition GetEffectiveDate :: "IRSwap \<Rightarrow> year_month_day" where
  "GetEffectiveDate this = effectiveDate this"

definition GetTerminationDate :: "IRSwap \<Rightarrow> year_month_day" where
  "GetTerminationDate this = terminationDate this"

definition GetCurrency :: "IRSwap \<Rightarrow> Currency" where
  "GetCurrency this = currency this"

definition GetTermYears :: "IRSwap \<Rightarrow> int32" where
  "GetTermYears this = termYears this"

definition GetSwapType :: "IRSwap \<Rightarrow> SwapType" where
  "GetSwapType this = swapType this"

definition GetSwapLegType :: "IRSwap \<Rightarrow> SwapLegType" where
  "GetSwapLegType this = swapLegType this"

section \<open>Formatted output\<close>

subsection \<open>The output stream of the C++ library\<close>

text \<open>
  The renderers write to a \<^verbatim>\<open>std::ostream\<close>. The model keeps what they can
  change and what changes their output: the characters written so far, the field width
  (set by \<^verbatim>\<open>std::setw\<close>, reset to 0 by every formatted insertion) and the fill
  character (set by \<^verbatim>\<open>std::setfill\<close>, kept until it is set again). The format flags
  are those of a stream that was never configured (decimal, padding on the left, no
  \<^verbatim>\<open>showpos\<close>, precision 6) and the locale is the classic one, as in a stream
  just constructed; the header changes none of them.
\<close>

record ostream =
  buf :: string
  width :: nat
  fill :: char

definition ostream_init :: ostream where
  "ostream_init = \<lparr>buf = [], width = 0, fill = CHR '' ''\<rparr>"

definition padded :: "nat \<Rightarrow> char \<Rightarrow> string \<Rightarrow> string" where
  "padded w c s = replicate (w - length s) c @ s"

definition insert_text :: "string \<Rightarrow> ostream \<Rightarrow> ostream" where
  "insert_text s os = os\<lparr>buf := buf os @ padded (width os) (fill os) s, width := 0\<rparr>"

definition setw :: "nat \<Rightarrow> ostream \<Rightarrow> ostream" where
  "setw n os = os\<lparr>width := n\<rparr>"

definition setfill :: "char \<Rightarrow> ostream \<Rightarrow> ostream" where
  "setfill c os = os\<lparr>fill := c\<rparr>"

text \<open>
  Integers are written in decimal, most significant digit first; \<open>digit_char\<close> is
  only applied to a digit, a number below 10.
\<close>

definition digit_char :: "nat \<Rightarrow> char" where
  "digit_char d = ''0123456789'' ! d"

fun dec_nat :: "nat \<Rightarrow> string" where
  "dec_nat n =
     (if n < 10 then [digit_char n] else dec_nat (n div 10) @ [digit_char (n mod 10)])"

declare dec_nat.simps [simp del]

definition dec_int :: "int \<Rightarrow> string" where
  "dec_int i = (if i < 0 then CHR ''-'' # dec_nat (nat (- i)) else dec_nat (nat i))"

definition out_string :: "string \<Rightarrow> ostream \<Rightarrow> ostream" where
  "out_string s os = insert_text s os"

definition out_char :: "char \<Rightarrow> ostream \<Rightarrow> ostream" where
  "out_char c os = insert_text [c] os"

definition out_int :: "int \<Rightarrow> ostream \<Rightarrow> ostream" where
  "out_int i os = insert_text (dec_int i) os"

definition out_unsigned :: "nat \<Rightarrow> ostream \<Rightarrow> ostream" where
  "out_unsigned n os = insert_text (dec_nat n) os"

subsection \<open>Text of a \<^verbatim>\<open>double\<close>\<close>

text \<open>
  The stream converts a \<^verbatim>\<open>double\<close> as \<^verbatim>\<open>printf\<close> does with \<^verbatim>\<open>%g\<close> and
  precision 6: the value is rounded (to nearest, ties to even) to six significant decimal
  digits; with \<open>X\<close> the decimal exponent of the rounded value, the fixed notation is used
  when \<open>-4 \<le> X < 6\<close> and the scientific one otherwise; trailing zeros of the fraction,
  and a decimal point with nothing after it, are dropped. The value of a finite
  \<^verbatim>\<open>double\<close> is computed exactly, as a fraction \<open>p / q\<close> of natural numbers.
  An infinity is written \<^verbatim>\<open>inf\<close> and a NaN \<^verbatim>\<open>nan\<close>; a set sign bit gives a
  leading minus sign in every case.
\<close>

definition dbl_negative :: "double \<Rightarrow> bool" where
  "dbl_negative d = (2 ^ 63 \<le> unat d)"

definition dbl_exponent :: "double \<Rightarrow> nat" where
  "dbl_exponent d = (unat d div 2 ^ 52) mod 2048"

definition dbl_fraction :: "double \<Rightarrow> nat" where
  "dbl_fraction d = unat d mod 2 ^ 52"

function lead_shift :: "nat \<Rightarrow> nat \<Rightarrow> nat" where
  "lead_shift p q = (if p = 0 \<or> q \<le> p then 0 else Suc (lead_shift (10 * p) q))"
  by pat_completeness auto
termination
  by (relation "measure (\<lambda>(p, q). q - p)") auto

declare lead_shift.simps [simp del]

definition dec_exponent :: "nat \<Rightarrow> nat \<Rightarrow> int" where
  "dec_exponent p q =
     (if q \<le> p then int (length (dec_nat (p div q))) - 1 else - int (lead_shift p q))"

definition round_half_even :: "nat \<Rightarrow> nat \<Rightarrow> nat" where
  "round_half_even a b =
     (let n = a div b; r = a mod b
      in if 2 * r < b then n
         else if b < 2 * r then n + 1
         else if even n then n else n + 1)"

definition significant6 :: "nat \<Rightarrow> nat \<Rightarrow> nat \<times> int" where
  "significant6 p q =
     (let X = dec_exponent p q;
          D = (if X \<le> 5 then round_half_even (p * 10 ^ nat (5 - X)) q
               else round_half_even p (q * 10 ^ nat (X - 5)))
      in if D = 10 ^ 6 then (10 ^ 5, X + 1) else (D, X))"

definition strip_zeros :: "string \<Rightarrow> string" where
  "strip_zeros s = rev (dropWhile (\<lambda>c. c = CHR ''0'') (rev s))"

definition with_fraction :: "string \<Rightarrow> string \<Rightarrow> string" where
  "with_fraction ip fp =
     (let fp' = strip_zeros fp in if fp' = [] then ip else ip @ CHR ''.'' # fp')"

definition general_text :: "nat \<Rightarrow> nat \<Rightarrow> string" where
  "general_text p q =
     (let (D, X) = significant6 p q; ds = dec_nat D
      in if - 4 \<le> X \<and> X < 6 then
           (if 0 \<le> X then with_fraction (take (nat X + 1) ds) (drop (nat X + 1) ds)
            else with_fraction ''0'' (replicate (nat (- X - 1)) CHR ''0'' @ ds))
         else with_fraction (take 1 ds) (drop 1 ds) @
              CHR ''e'' # (if X < 0 then CHR ''-'' else CHR ''+'') #
              padded 2 CHR ''0'' (dec_nat (nat \<bar>X\<bar>)))"

definition double_text :: "double \<Rightarrow> string" where
  "double_text d =
     (let e = dbl_exponent d; f = dbl_fraction d
      in (if dbl_negative d then ''-'' else []) @
         (if e = 2047 then (if f = 0 then ''inf'' else ''nan'')
          else if e = 0 \<and> f = 0 then ''0''
          else if e = 0 then general_text f (2 ^ 1074)
          else if 1075 \<le> e then general_text ((2 ^ 52 + f) * 2 ^ (e - 1075)) 1
          else general_text (2 ^ 52 + f) (2 ^ (1075 - e))))"

definition out_double :: "double \<Rightarrow> ostream \<Rightarrow> ostream" where
  "out_double d os = insert_text (double_text d) os"

text \<open>
  A chain \<^verbatim>\<open>os << a << b << c\<close> applies the insertions to the stream from left to
  right.
\<close>

definition inserted :: "ostream \<Rightarrow> (ostream \<Rightarrow> ostream) list \<Rightarrow> ostream" where
  "inserted os fs = fold (\<lambda>f s. f s) fs os"

subsection \<open>Dates\<close>

definition out_year_month_day :: "year_month_day \<Rightarrow> ostream \<Rightarrow> ostream" where
  "out_year_month_day ymd os =
     (let year' = sint (year ymd);
          month' = unat (month ymd);
          day' = unat (day ymd)
      in inserted os
           [out_int year', out_char CHR ''-'', setw 2, setfill CHR ''0'', out_unsigned month',
            out_char CHR ''-'', setw 2, setfill CHR ''0'', out_unsigned day'])"

subsection \<open>Rendering of a bond\<close>

definition out_Bond :: "Bond \<Rightarrow> ostream \<Rightarrow> ostream" where
  "out_Bond bond output =
     inserted output
       [out_string (ticker bond), out_string '' '', out_double (coupon bond),
        out_string '' '', out_year_month_day (GetMaturityDate bond)]"

subsection \<open>Labels of the enumerators\<close>

definition ToString_DayCountConvention :: "DayCountConvention \<Rightarrow> string" where
  "ToString_DayCountConvention dayCountConvention =
     (if dayCountConvention = THIRTY_THREE_SIXTY then ''30/360''
      else if dayCountConvention = ACT_THREE_SIXTY then ''Act/360''
      else [])"

definition ToString_PaymentFrequency :: "PaymentFrequency \<Rightarrow> string" where
  "ToString_PaymentFrequency paymentFrequency =
     (if paymentFrequency = QUARTERLY then ''Quarterly''
      else if paymentFrequency = SEMI_ANNUAL then ''Semi-Annual''
      else if paymentFrequency = ANNUAL then ''Annual''
      else [])"

definition ToString_FloatingIndex :: "FloatingIndex \<Rightarrow> string" where
  "ToString_FloatingIndex floatingIndex' =
     (if floatingIndex' = LIBOR then ''LIBOR''
      else if floatingIndex' = EURIBOR then ''EURIBOR''
      else [])"

definition ToString_FloatingIndexTenor :: "FloatingIndexTenor \<Rightarrow> string" where
  "ToString_FloatingIndexTenor floatingIndexTenor' =
     (if floatingIndexTenor' = TENOR_1M then ''1m''
      else if floatingIndexTenor' = TENOR_3M then ''3m''
      else if floatingIndexTenor' = TENOR_6M then ''6m''
      else if floatingIndexTenor' = TENOR_12M then ''12m''
      else [])"

definition ToString_Currency :: "Currency \<Rightarrow> string" where
  "ToString_Currency currency' =
     (if currency' = USD then ''USD''
      else if currency' = EUR then ''EUR''
      else if currency' = GBP then ''GBP''
      else [])"

definition ToString_SwapType :: "SwapType \<Rightarrow> string" where
  "ToString_SwapType swapType' =
     (if swapType' = STANDARD then ''Standard''
      else if swapType' = FORWARD then ''Forward''
      else if swapType' = IMM then ''IMM''
      else if swapType' = MAC then ''MAC''
      else if swapType' = BASIS then ''Basis''
      else [])"

definition ToString_SwapLegType :: "SwapLegType \<Rightarrow> string" where
  "ToString_SwapLegType swapLegType' =
     (if swapLegType' = OUTRIGHT then ''Outright''
      else if swapLegType' = CURVE then ''Curve''
      else if swapLegType' = FLY then ''Fly''
      else [])"

subsection \<open>Rendering of a swap\<close>

definition out_IRSwap :: "IRSwap \<Rightarrow> ostream \<Rightarrow> ostream" where
  "out_IRSwap swap output =
     inserted output
       [out_string ''fixedDayCount:'',
        out_string (ToString_DayCountConvention (GetFixedLegDayCountConvention swap)),
        out_string '' floatingDayCount:'',
        out_string (ToString_DayCountConvention (GetFloatingLegDayCountConvention swap)),
        out_string '' paymentFreq:'',
        out_string (ToString_PaymentFrequency (GetFixedLegPaymentFrequency swap)),
        out_string '' '',
        out_string (ToString_FloatingIndexTenor (GetFloatingIndexTenor swap)),
        out_string (ToString_FloatingIndex (GetFloatingIndex swap)),
        out_string '' effective:'',
        out_year_month_day (GetEffectiveDate swap),
        out_string '' termination:'',
        out_year_month_day (GetTerminationDate swap),
        out_string '' '',
        out_string (ToString_Currency (GetCurrency swap)),
        out_string '' '',
        out_int (sint (GetTermYears swap)),
        out_string ''yrs '',
        out_string (ToString_SwapType (GetSwapType swap)),
        out_string '' '',
        out_string (ToString_SwapLegType (GetSwapLegType swap))]"

section \<open>Notions the properties are stated with\<close>

subsection \<open>Text of a date, and the form \<^verbatim>\<open>YYYY-MM-DD\<close>\<close>

text \<open>
  \<open>date_text\<close> is what the date routine writes to a stream just constructed.
  \<open>is_YYYY_MM_DD\<close> and \<open>YYYY_MM_DD\<close> say what the form \<^verbatim>\<open>YYYY-MM-DD\<close> is: ten
  characters, four digits of the year, two of the month and two of the day, with a
  hyphen after the year and after the month.
\<close>

definition date_text :: "year_month_day \<Rightarrow> string" where
  "date_text ymd = buf (out_year_month_day ymd ostream_init)"

definition is_digit :: "char \<Rightarrow> bool" where
  "is_digit c = (c \<in> set ''0123456789'')"

definition is_YYYY_MM_DD :: "string \<Rightarrow> bool" where
  "is_YYYY_MM_DD s =
     (length s = 10 \<and> list_all is_digit (take 4 s) \<and> s ! 4 = CHR ''-'' \<and>
      list_all is_digit (take 2 (drop 5 s)) \<and> s ! 7 = CHR ''-'' \<and>
      list_all is_digit (drop 8 s))"

definition YYYY_MM_DD :: "nat \<Rightarrow> nat \<Rightarrow> nat \<Rightarrow> string" where
  "YYYY_MM_DD y m d =
     [digit_char (y div 1000 mod 10), digit_char (y div 100 mod 10),
      digit_char (y div 10 mod 10), digit_char (y mod 10), CHR ''-'',
      digit_char (m div 10 mod 10), digit_char (m mod 10), CHR ''-'',
      digit_char (d div 10 mod 10), digit_char (d mod 10)]"

definition four_digit_year :: "year_month_day \<Rightarrow> bool" where
  "four_digit_year ymd =
     (1000 \<le> sint (year ymd) \<and> sint (year ymd) \<le> 9999 \<and>
      unat (month ymd) < 100 \<and> unat (day ymd) < 100)"

subsection \<open>The text one insertion appends\<close>

definition emitted :: "(ostream \<Rightarrow> ostream) \<Rightarrow> ostream \<Rightarrow> string" where
  "emitted f os = drop (length (buf os)) (buf (f os))"

text \<open>
  The renderers cut at their dates: the insertions of \<open>out_Bond\<close> before the maturity
  date, and those of \<open>out_IRSwap\<close> before the effective date, between the two dates and
  after the termination date.
\<close>

definition Bond_upto_maturity :: "Bond \<Rightarrow> ostream \<Rightarrow> ostream" where
  "Bond_upto_maturity bond output =
     inserted output
       [out_string (ticker bond), out_string '' '', out_double (coupon bond),
        out_string '' '']"

definition IRSwap_upto_effective :: "IRSwap \<Rightarrow> ostream \<Rightarrow> ostream" where
  "IRSwap_upto_effective swap output =
     inserted output
       [out_string ''fixedDayCount:'',
        out_string (ToString_DayCountConvention (GetFixedLegDayCountConvention swap)),
        out_string '' floatingDayCount:'',
        out_string (ToString_DayCountConvention (GetFloatingLegDayCountConvention swap)),
        out_string '' paymentFreq:'',
        out_string (ToString_PaymentFrequency (GetFixedLegPaymentFrequency swap)),
        out_string '' '',
        out_string (ToString_FloatingIndexTenor (GetFloatingIndexTenor swap)),
        out_string (ToString_FloatingIndex (GetFloatingIndex swap)),
        out_string '' effective:'']"

definition IRSwap_upto_termination :: "IRSwap \<Rightarrow> ostream \<Rightarrow> ostream" where
  "IRSwap_upto_termination swap output =
     out_string '' termination:''
       (out_year_month_day (GetEffectiveDate swap) (IRSwap_upto_effective swap output))"

definition IRSwap_after_termination :: "IRSwap \<Rightarrow> ostream \<Rightarrow> ostream" where
  "IRSwap_after_termination swap output =
     inserted output
       [out_string '' '',
        out_string (ToString_Currency (GetCurrency swap)),
        out_string '' '',
        out_int (sint (GetTermYears swap)),
        out_string ''yrs '',
        out_string (ToString_SwapType (GetSwapType swap)),
        out_string '' '',
        out_string (ToString_SwapLegType (GetSwapLegType swap))]"

section \<open>Lemmas on the definitions\<close>

lemmas enumerator_defs =
  IRSWAP_def BOND_def CUSIP_def ISIN_def
  THIRTY_THREE_SIXTY_def ACT_THREE_SIXTY_def
  QUARTERLY_def SEMI_ANNUAL_def ANNUAL_def
  LIBOR_def EURIBOR_def
  TENOR_1M_def TENOR_3M_def TENOR_6M_def TENOR_12M_def
  USD_def EUR_def GBP_def
  STANDARD_def FORWARD_def IMM_def MAC_def BASIS_def
  OUTRIGHT_def CURVE_def FLY_def

lemmas accessor_defs =
  GetProductId_def GetProductType_def
  GetTicker_def GetCoupon_def GetMaturityDate_def GetBondIdType_def
  GetFixedLegDayCountConvention_def GetFloatingLegDayCountConvention_def
  GetFixedLegPaymentFrequency_def GetFloatingIndex_def GetFloatingIndexTenor_def
  GetEffectiveDate_def GetTerminationDate_def GetCurrency_def GetTermYears_def
  GetSwapType_def GetSwapLegType_def

lemmas ctor_defs =
  Product_ctor_def Bond_ctor_def IRSwap_ctor_def
  Product.extend_def Bond.fields_def IRSwap.fields_def

lemmas ToString_defs =
  ToString_DayCountConvention_def ToString_PaymentFrequency_def ToString_FloatingIndex_def
  ToString_FloatingIndexTenor_def ToString_Currency_def ToString_SwapType_def
  ToString_SwapLegType_def

lemmas stream_defs =
  out_string_def out_char_def out_int_def out_unsigned_def out_double_def
  insert_text_def setw_def setfill_def inserted_def

lemma padded_0 [simp]: "padded 0 c s = s"
  by (simp add: padded_def)

lemma out_year_month_day_eq:
  "out_year_month_day d os =
     \<lparr>buf = buf os @ padded (width os) (fill os) (dec_int (sint (year d))) @ ''-'' @
              padded 2 CHR ''0'' (dec_nat (unat (month d))) @ ''-'' @
              padded 2 CHR ''0'' (dec_nat (unat (day d))),
      width = 0, fill = CHR ''0''\<rparr>"
  by (simp add: out_year_month_day_def stream_defs Let_def)

lemma date_text_eq:
  "date_text d =
     dec_int (sint (year d)) @ ''-'' @ padded 2 CHR ''0'' (dec_nat (unat (month d))) @ ''-'' @
     padded 2 CHR ''0'' (dec_nat (unat (day d)))"
  by (simp add: date_text_def out_year_month_day_eq ostream_init_def)

lemma out_year_month_day_width_0:
  "width os = 0 \<Longrightarrow> out_year_month_day d os =
     \<lparr>buf = buf os @ date_text d, width = 0, fill = CHR ''0''\<rparr>"
  by (simp add: out_year_month_day_eq date_text_eq)

lemma emitted_date:
  "width os = 0 \<Longrightarrow> emitted (out_year_month_day d) os = date_text d"
  by (simp add: emitted_def out_year_month_day_width_0)

lemma dec_nat_1: "n < 10 \<Longrightarrow> dec_nat n = [digit_char n]"
  by (simp add: dec_nat.simps)

lemma dec_nat_2:
  "10 \<le> n \<Longrightarrow> n < 100 \<Longrightarrow> dec_nat n = [digit_char (n div 10), digit_char (n mod 10)]"
  by (subst dec_nat.simps) (simp add: dec_nat_1)

lemma dec_nat_3:
  "100 \<le> n \<Longrightarrow> n < 1000 \<Longrightarrow>
   dec_nat n = [digit_char (n div 100), digit_char (n div 10 mod 10), digit_char (n mod 10)]"
  by (subst dec_nat.simps) (simp add: dec_nat_2 div_mult2_eq[symmetric])

lemma dec_nat_4:
  "1000 \<le> n \<Longrightarrow> n < 10000 \<Longrightarrow>
   dec_nat n = [digit_char (n div 1000), digit_char (n div 100 mod 10),
                digit_char (n div 10 mod 10), digit_char (n mod 10)]"
  by (subst dec_nat.simps) (simp add: dec_nat_3 div_mult2_eq[symmetric])

lemma two_digits:
  "n < 100 \<Longrightarrow> padded 2 CHR ''0'' (dec_nat n) = [digit_char (n div 10), digit_char (n mod 10)]"
  by (cases "n < 10") (simp_all add: padded_def dec_nat_1 dec_nat_2 digit_char_def)

lemma is_digit_digit_char: "d < 10 \<Longrightarrow> is_digit (digit_char d)"
proof -
  assume "d < 10"
  then have "d \<in> {0, 1, 2, 3, 4, 5, 6, 7, 8, 9}" by auto
  then show ?thesis by (auto simp: is_digit_def digit_char_def)
qed

lemma is_YYYY_MM_DD_digits:
  assumes "y < 10000" "m < 100" "d < 100"
  shows "is_YYYY_MM_DD (YYYY_MM_DD y m d)"
proof -
  have "y div 1000 mod 10 < 10" "y div 100 mod 10 < 10" "y div 10 mod 10 < 10" "y mod 10 < 10"
    "m div 10 mod 10 < 10" "m mod 10 < 10" "d div 10 mod 10 < 10" "d mod 10 < 10"
    by simp_all
  then show ?thesis
    by (simp add: is_YYYY_MM_DD_def YYYY_MM_DD_def is_digit_digit_char)
qed

lemma date_text_four_digit_year:
  assumes "four_digit_year ymd"
  shows "date_text ymd = YYYY_MM_DD (nat (sint (year ymd))) (unat (month ymd)) (unat (day ymd))"
proof -
  from assms have y: "1000 \<le> nat (sint (year ymd))" "nat (sint (year ymd)) < 10000"
    and m: "unat (month ymd) < 100" and d: "unat (day ymd) < 100"
    and nonneg: "\<not> sint (year ymd) < 0"
    by (auto simp: four_digit_year_def)
  from y m d have lead:
    "nat (sint (year ymd)) div 1000 mod 10 = nat (sint (year ymd)) div 1000"
    "unat (month ymd) div 10 mod 10 = unat (month ymd) div 10"
    "unat (day ymd) div 10 mod 10 = unat (day ymd) div 10"
    by simp_all
  show ?thesis
    by (simp add: date_text_eq dec_int_def nonneg dec_nat_4 [OF y] two_digits [OF m]
        two_digits [OF d] YYYY_MM_DD_def lead)
qed

lemma date_text_is_YYYY_MM_DD:
  assumes "four_digit_year ymd"
  shows "is_YYYY_MM_DD (date_text ymd)"
proof -
  from assms have "nat (sint (year ymd)) < 10000" "unat (month ymd) < 100" "unat (day ymd) < 100"
    by (auto simp: four_digit_year_def)
  then show ?thesis
    by (simp add: date_text_four_digit_year [OF assms] is_YYYY_MM_DD_digits)
qed

lemmas eval_defs =
  dec_int_def dec_nat.simps digit_char_def padded_def

lemma out_Bond_eq:
  "out_Bond bond os =
     \<lparr>buf = buf os @ padded (width os) (fill os) (ticker bond) @ '' '' @
              double_text (coupon bond) @ '' '' @ date_text (maturityDate bond),
      width = 0, fill = CHR ''0''\<rparr>"
  by (simp add: out_Bond_def stream_defs out_year_month_day_eq date_text_eq
      GetMaturityDate_def)

lemma out_IRSwap_eq:
  "out_IRSwap swap os =
     \<lparr>buf = buf os @ padded (width os) (fill os) ''fixedDayCount:'' @
              ToString_DayCountConvention (fixedLegDayCountConvention swap) @
              '' floatingDayCount:'' @
              ToString_DayCountConvention (floatingLegDayCountConvention swap) @
              '' paymentFreq:'' @
              ToString_PaymentFrequency (fixedLegPaymentFrequency swap) @
              '' '' @
              ToString_FloatingIndexTenor (floatingIndexTenor swap) @
              ToString_FloatingIndex (floatingIndex swap) @
              '' effective:'' @ date_text (effectiveDate swap) @
              '' termination:'' @ date_text (terminationDate swap) @
              '' '' @ ToString_Currency (currency swap) @
              '' '' @ dec_int (sint (termYears swap)) @ ''yrs '' @
              ToString_SwapType (swapType swap) @
              '' '' @ ToString_SwapLegType (swapLegType swap),
      width = 0, fill = CHR ''0''\<rparr>"
  by (simp add: out_IRSwap_def stream_defs out_year_month_day_eq date_text_eq accessor_defs)

lemma double_text_4_25: "double_text 0x4011000000000000 = ''4.25''"
  by (simp add: double_text_def dbl_negative_def dbl_exponent_def dbl_fraction_def
      general_text_def significant6_def dec_exponent_def round_half_even_def
      with_fraction_def strip_zeros_def dec_nat.simps digit_char_def Let_def)

section \<open>Construction and accessors\<close>

text \<open>
  C1. Every accessor of an object built by the parameterised constructor of
  \<^verbatim>\<open>Bond\<close> (product identifier, identifier scheme, ticker, coupon, maturity date) or of
  \<^verbatim>\<open>IRSwap\<close> (product identifier and the eleven attributes) returns the argument
  that was passed for its field, \<open>GetProductId\<close> included.
\<close>

theorem C1_constructor_accessor_roundtrip:
  "GetProductId (Bond_ctor productId' bondIdType' ticker' coupon' maturityDate') = productId' \<and>
   GetBondIdType (Bond_ctor productId' bondIdType' ticker' coupon' maturityDate') = bondIdType' \<and>
   GetTicker (Bond_ctor productId' bondIdType' ticker' coupon' maturityDate') = ticker' \<and>
   GetCoupon (Bond_ctor productId' bondIdType' ticker' coupon' maturityDate') = coupon' \<and>
   GetMaturityDate (Bond_ctor productId' bondIdType' ticker' coupon' maturityDate') = maturityDate' \<and>
   GetProductId (IRSwap_ctor swapId fixedDc floatDc freq idx tenor eff term ccy yrs st lt) = swapId \<and>
   GetFixedLegDayCountConvention
     (IRSwap_ctor swapId fixedDc floatDc freq idx tenor eff term ccy yrs st lt) = fixedDc \<and>
   GetFloatingLegDayCountConvention
     (IRSwap_ctor swapId fixedDc floatDc freq idx tenor eff term ccy yrs st lt) = floatDc \<and>
   GetFixedLegPaymentFrequency
     (IRSwap_ctor swapId fixedDc floatDc freq idx tenor eff term ccy yrs st lt) = freq \<and>
   GetFloatingIndex (IRSwap_ctor swapId fixedDc floatDc freq idx tenor eff term ccy yrs st lt) = idx \<and>
   GetFloatingIndexTenor
     (IRSwap_ctor swapId fixedDc floatDc freq idx tenor eff term ccy yrs st lt) = tenor \<and>
   GetEffectiveDate (IRSwap_ctor swapId fixedDc floatDc freq idx tenor eff term ccy yrs st lt) = eff \<and>
   GetTerminationDate
     (IRSwap_ctor swapId fixedDc floatDc freq idx tenor eff term ccy yrs st lt) = term \<and>
   GetCurrency (IRSwap_ctor swapId fixedDc floatDc freq idx tenor eff term ccy yrs st lt) = ccy \<and>
   GetTermYears (IRSwap_ctor swapId fixedDc floatDc freq idx tenor eff term ccy yrs st lt) = yrs \<and>
   GetSwapType (IRSwap_ctor swapId fixedDc floatDc freq idx tenor eff term ccy yrs st lt) = st \<and>
   GetSwapLegType (IRSwap_ctor swapId fixedDc floatDc freq idx tenor eff term ccy yrs st lt) = lt"
  by (simp add: accessor_defs ctor_defs)

text \<open>
  The claim C2 speaks of every \<^verbatim>\<open>Bond\<close> object. A \<^verbatim>\<open>Bond\<close> that is
  value-initialised through the defaulted constructor carries the tag 0, which is
  \<open>IRSWAP\<close>, not \<open>BOND\<close>.
\<close>

theorem C2_default_Bond_is_tagged_IRSWAP:
  "GetProductType Bond_default = IRSWAP \<and> GetProductType Bond_default \<noteq> BOND"
  by (simp add: GetProductType_def Bond_default_def Product_default_def Product.extend_def
      IRSWAP_def BOND_def)

text \<open>
  C2, as the constructors have it. \<open>GetProductType\<close> returns \<open>BOND\<close> on every
  \<^verbatim>\<open>Bond\<close> built by the parameterised constructor and \<open>IRSWAP\<close> on every
  \<^verbatim>\<open>IRSwap\<close> built by the parameterised constructor, whatever the other arguments
  are; a value-initialised \<^verbatim>\<open>IRSwap\<close> carries \<open>IRSWAP\<close> as well.
\<close>

theorem C2_constructed_product_type:
  "GetProductType (Bond_ctor productId' bondIdType' ticker' coupon' maturityDate') = BOND \<and>
   GetProductType (IRSwap_ctor swapId fixedDc floatDc freq idx tenor eff term ccy yrs st lt) = IRSWAP \<and>
   GetProductType IRSwap_default = IRSWAP"
  by (simp add: GetProductType_def ctor_defs IRSwap_default_def Product_default_def IRSWAP_def)

section \<open>Rendering\<close>

text \<open>
  C3. The swap of the example renders, on a stream just constructed, as the line the
  specification gives. For every swap and every stream, the renderer appends the
  labelled fields in the fixed order with the literal separators: the two day-count
  labels, the payment frequency, the tenor label directly followed by the index label,
  the two dates, the currency, the term in years (a signed decimal number) followed by
  \<^verbatim>\<open>yrs\<close>, the swap type and the leg type. (A field width that is pending on the
  stream pads the first token, as for any insertion.)
\<close>

theorem C3_swap_rendering:
  "buf (out_IRSwap
         (IRSwap_ctor swapId THIRTY_THREE_SIXTY ACT_THREE_SIXTY QUARTERLY LIBOR TENOR_3M
            \<lparr>year = 2024, month = 1, day = 1\<rparr> \<lparr>year = 2034, month = 1, day = 1\<rparr>
            USD 10 STANDARD OUTRIGHT)
         ostream_init) =
     ''fixedDayCount:30/360 floatingDayCount:Act/360 paymentFreq:Quarterly 3mLIBOR effective:2024-01-01 termination:2034-01-01 USD 10yrs Standard Outright'' \<and>
   buf (out_IRSwap swap os) =
     buf os @ padded (width os) (fill os) ''fixedDayCount:'' @
     ToString_DayCountConvention (GetFixedLegDayCountConvention swap) @
     '' floatingDayCount:'' @
     ToString_DayCountConvention (GetFloatingLegDayCountConvention swap) @
     '' paymentFreq:'' @
     ToString_PaymentFrequency (GetFixedLegPaymentFrequency swap) @
     '' '' @
     ToString_FloatingIndexTenor (GetFloatingIndexTenor swap) @
     ToString_FloatingIndex (GetFloatingIndex swap) @
     '' effective:'' @ date_text (GetEffectiveDate swap) @
     '' termination:'' @ date_text (GetTerminationDate swap) @
     '' '' @ ToString_Currency (GetCurrency swap) @
     '' '' @ dec_int (sint (GetTermYears swap)) @ ''yrs '' @
     ToString_SwapType (GetSwapType swap) @
     '' '' @ ToString_SwapLegType (GetSwapLegType swap)"
proof
  show "buf (out_IRSwap
         (IRSwap_ctor swapId THIRTY_THREE_SIXTY ACT_THREE_SIXTY QUARTERLY LIBOR TENOR_3M
            \<lparr>year = 2024, month = 1, day = 1\<rparr> \<lparr>year = 2034, month = 1, day = 1\<rparr>
            USD 10 STANDARD OUTRIGHT)
         ostream_init) =
     ''fixedDayCount:30/360 floatingDayCount:Act/360 paymentFreq:Quarterly 3mLIBOR effective:2024-01-01 termination:2034-01-01 USD 10yrs Standard Outright''"
    by (simp add: out_IRSwap_eq ctor_defs ostream_init_def ToString_defs enumerator_defs
        date_text_eq eval_defs)
next
  show "buf (out_IRSwap swap os) =
     buf os @ padded (width os) (fill os) ''fixedDayCount:'' @
     ToString_DayCountConvention (GetFixedLegDayCountConvention swap) @
     '' floatingDayCount:'' @
     ToString_DayCountConvention (GetFloatingLegDayCountConvention swap) @
     '' paymentFreq:'' @
     ToString_PaymentFrequency (GetFixedLegPaymentFrequency swap) @
     '' '' @
     ToString_FloatingIndexTenor (GetFloatingIndexTenor swap) @
     ToString_FloatingIndex (GetFloatingIndex swap) @
     '' effective:'' @ date_text (GetEffectiveDate swap) @
     '' termination:'' @ date_text (GetTerminationDate swap) @
     '' '' @ ToString_Currency (GetCurrency swap) @
     '' '' @ dec_int (sint (GetTermYears swap)) @ ''yrs '' @
     ToString_SwapType (GetSwapType swap) @
     '' '' @ ToString_SwapLegType (GetSwapLegType swap)"
    by (simp add: out_IRSwap_eq accessor_defs)
qed

text \<open>
  The claim C4 has the date of every bond in the form \<^verbatim>\<open>YYYY-MM-DD\<close>. The year is
  written without padding: a bond that matures in the year 999 renders with a date of
  nine characters.
\<close>

theorem C4_bond_year_999:
  "buf (out_Bond (Bond_ctor ''B'' CUSIP ''T'' 0x4011000000000000
                   \<lparr>year = 999, month = 6, day = 15\<rparr>) ostream_init) = ''T 4.25 999-06-15'' \<and>
   \<not> is_YYYY_MM_DD
       (drop (length ''T 4.25 '')
          (buf (out_Bond (Bond_ctor ''B'' CUSIP ''T'' 0x4011000000000000
                           \<lparr>year = 999, month = 6, day = 15\<rparr>) ostream_init)))"
proof -
  have "buf (out_Bond (Bond_ctor ''B'' CUSIP ''T'' 0x4011000000000000
                   \<lparr>year = 999, month = 6, day = 15\<rparr>) ostream_init) = ''T 4.25 999-06-15''"
    by (simp add: out_Bond_eq ctor_defs ostream_init_def double_text_4_25 date_text_eq eval_defs)
  then show ?thesis
    by (simp add: is_YYYY_MM_DD_def)
qed

text \<open>
  C4, as the renderer has it. For every bond and every stream, the renderer appends the
  ticker, one space, the coupon (as the stream writes a \<^verbatim>\<open>double\<close>), one space and
  the maturity date as the date routine writes it; that date is in the form
  \<^verbatim>\<open>YYYY-MM-DD\<close> when the year has four digits (1000 to 9999) and month and day are
  below 100. The bond with ticker \<^verbatim>\<open>T\<close>, coupon 4.25 (the \<^verbatim>\<open>double\<close>
  \<^verbatim>\<open>0x4011000000000000\<close>) and maturity (2030, 6, 15) renders as
  \<^verbatim>\<open>T 4.25 2030-06-15\<close>.
\<close>

theorem C4_bond_rendering:
  "buf (out_Bond bond os) =
     buf os @ padded (width os) (fill os) (GetTicker bond) @ '' '' @
     double_text (GetCoupon bond) @ '' '' @ date_text (GetMaturityDate bond) \<and>
   (four_digit_year (GetMaturityDate bond) \<longrightarrow>
      is_YYYY_MM_DD (date_text (GetMaturityDate bond))) \<and>
   buf (out_Bond (Bond_ctor productId' bondIdType' ''T'' 0x4011000000000000
                   \<lparr>year = 2030, month = 6, day = 15\<rparr>) ostream_init) = ''T 4.25 2030-06-15''"
proof (intro conjI impI)
  show "buf (out_Bond bond os) =
     buf os @ padded (width os) (fill os) (GetTicker bond) @ '' '' @
     double_text (GetCoupon bond) @ '' '' @ date_text (GetMaturityDate bond)"
    by (simp add: out_Bond_eq accessor_defs)
next
  assume "four_digit_year (GetMaturityDate bond)"
  then show "is_YYYY_MM_DD (date_text (GetMaturityDate bond))"
    by (rule date_text_is_YYYY_MM_DD)
next
  show "buf (out_Bond (Bond_ctor productId' bondIdType' ''T'' 0x4011000000000000
                   \<lparr>year = 2030, month = 6, day = 15\<rparr>) ostream_init) = ''T 4.25 2030-06-15''"
    by (simp add: out_Bond_eq ctor_defs ostream_init_def double_text_4_25 date_text_eq eval_defs)
qed

theorem C4_bond_rendering_witness:
  "four_digit_year
     (GetMaturityDate (Bond_ctor ''B'' ISIN ''T'' 0x4011000000000000
                         \<lparr>year = 2030, month = 6, day = 15\<rparr>)) \<and>
   is_YYYY_MM_DD
     (date_text (GetMaturityDate (Bond_ctor ''B'' ISIN ''T'' 0x4011000000000000
                                    \<lparr>year = 2030, month = 6, day = 15\<rparr>))) \<and>
   buf (out_Bond (Bond_ctor ''B'' ISIN ''T'' 0x4011000000000000
                   \<lparr>year = 2030, month = 6, day = 15\<rparr>) ostream_init) = ''T 4.25 2030-06-15''"
proof -
  let ?b = "Bond_ctor ''B'' ISIN ''T'' 0x4011000000000000 \<lparr>year = 2030, month = 6, day = 15\<rparr>"
  have h: "four_digit_year (GetMaturityDate ?b)"
    by (simp add: four_digit_year_def accessor_defs ctor_defs)
  show ?thesis
    using h C4_bond_rendering [of ?b ostream_init "''B''" ISIN] by blast
qed

section \<open>Dates\<close>

text \<open>
  The claim C5 has every date in the form \<^verbatim>\<open>YYYY-MM-DD\<close>. The routine sets a
  width of two and the fill character \<^verbatim>\<open>0\<close> before the month and before the day,
  and nothing before the year: the date (999, 3, 7) is written with a year of three
  digits.
\<close>

theorem C5_year_999:
  "date_text \<lparr>year = 999, month = 3, day = 7\<rparr> = ''999-03-07'' \<and>
   \<not> is_YYYY_MM_DD (date_text \<lparr>year = 999, month = 3, day = 7\<rparr>)"
proof -
  have "date_text \<lparr>year = 999, month = 3, day = 7\<rparr> = ''999-03-07''"
    by (simp add: date_text_eq eval_defs)
  then show ?thesis
    by (simp add: is_YYYY_MM_DD_def)
qed

text \<open>
  C5, as the routine has it. The date routine writes the year as a plain decimal number
  (a minus sign first when it is negative, no padding), a hyphen, the month padded with
  \<^verbatim>\<open>0\<close> to two characters, a hyphen and the day padded likewise. When the year has
  four digits (1000 to 9999) and month and day are below 100, as for every day of the
  calendar in those years, this is the form \<^verbatim>\<open>YYYY-MM-DD\<close> with the digits of
  year, month and day. On any stream with no pending field width the routine appends
  exactly this text. The date (2024, 3, 7) is written \<^verbatim>\<open>2024-03-07\<close> and
  (1999, 11, 23) is written \<^verbatim>\<open>1999-11-23\<close>.
\<close>

theorem C5_date_rendering:
  "date_text ymd =
     dec_int (sint (year ymd)) @ ''-'' @ padded 2 CHR ''0'' (dec_nat (unat (month ymd))) @
     ''-'' @ padded 2 CHR ''0'' (dec_nat (unat (day ymd))) \<and>
   (four_digit_year ymd \<longrightarrow>
      is_YYYY_MM_DD (date_text ymd) \<and>
      date_text ymd =
        YYYY_MM_DD (nat (sint (year ymd))) (unat (month ymd)) (unat (day ymd))) \<and>
   (width os = 0 \<longrightarrow> buf (out_year_month_day ymd os) = buf os @ date_text ymd) \<and>
   date_text \<lparr>year = 2024, month = 3, day = 7\<rparr> = ''2024-03-07'' \<and>
   date_text \<lparr>year = 1999, month = 11, day = 23\<rparr> = ''1999-11-23''"
proof (intro conjI impI)
  show "date_text ymd =
     dec_int (sint (year ymd)) @ ''-'' @ padded 2 CHR ''0'' (dec_nat (unat (month ymd))) @
     ''-'' @ padded 2 CHR ''0'' (dec_nat (unat (day ymd)))"
    by (rule date_text_eq)
next
  assume "four_digit_year ymd"
  then show "is_YYYY_MM_DD (date_text ymd)"
    by (rule date_text_is_YYYY_MM_DD)
next
  assume "four_digit_year ymd"
  then show "date_text ymd =
        YYYY_MM_DD (nat (sint (year ymd))) (unat (month ymd)) (unat (day ymd))"
    by (rule date_text_four_digit_year)
next
  assume "width os = 0"
  then show "buf (out_year_month_day ymd os) = buf os @ date_text ymd"
    by (simp add: out_year_month_day_width_0)
next
  show "date_text \<lparr>year = 2024, month = 3, day = 7\<rparr> = ''2024-03-07''"
    by (simp add: date_text_eq eval_defs)
next
  show "date_text \<lparr>year = 1999, month = 11, day = 23\<rparr> = ''1999-11-23''"
    by (simp add: date_text_eq eval_defs)
qed

theorem C5_date_rendering_witness:
  "four_digit_year \<lparr>year = 2024, month = 3, day = 7\<rparr> \<and>
   width ostream_init = 0 \<and>
   is_YYYY_MM_DD (date_text \<lparr>year = 2024, month = 3, day = 7\<rparr>) \<and>
   date_text \<lparr>year = 2024, month = 3, day = 7\<rparr> = YYYY_MM_DD 2024 3 7 \<and>
   YYYY_MM_DD 2024 3 7 = ''2024-03-07'' \<and>
   buf (out_year_month_day \<lparr>year = 2024, month = 3, day = 7\<rparr> ostream_init) = ''2024-03-07''"
proof -
  let ?d = "\<lparr>year = 2024, month = 3, day = 7\<rparr>"
  have h: "four_digit_year ?d"
    by (simp add: four_digit_year_def)
  have w: "width ostream_init = 0"
    by (simp add: ostream_init_def)
  have b: "buf ostream_init = []"
    by (simp add: ostream_init_def)
  have y: "YYYY_MM_DD 2024 3 7 = ''2024-03-07''"
    by (simp add: YYYY_MM_DD_def digit_char_def)
  from C5_date_rendering [of ?d ostream_init] h w
  have "is_YYYY_MM_DD (date_text ?d)"
    and "date_text ?d = YYYY_MM_DD (nat (sint (year ?d))) (unat (month ?d)) (unat (day ?d))"
    and "buf (out_year_month_day ?d ostream_init) = buf ostream_init @ date_text ?d"
    and "date_text ?d = ''2024-03-07''"
    by blast+
  with h w b y show ?thesis by simp
qed

section \<open>Labels\<close>

text \<open>
  C6. In each of the seven enumerations, the label function maps every enumerator to
  the label of the specification's table, and no two enumerators share a label: the
  function is injective on the enumerators, which are pairwise distinct.
\<close>

theorem C6_enumerator_labels:
  "ToString_DayCountConvention THIRTY_THREE_SIXTY = ''30/360'' \<and>
   ToString_DayCountConvention ACT_THREE_SIXTY = ''Act/360'' \<and>
   ToString_PaymentFrequency QUARTERLY = ''Quarterly'' \<and>
   ToString_PaymentFrequency SEMI_ANNUAL = ''Semi-Annual'' \<and>
   ToString_PaymentFrequency ANNUAL = ''Annual'' \<and>
   ToString_FloatingIndex LIBOR = ''LIBOR'' \<and>
   ToString_FloatingIndex EURIBOR = ''EURIBOR'' \<and>
   ToString_FloatingIndexTenor TENOR_1M = ''1m'' \<and>
   ToString_FloatingIndexTenor TENOR_3M = ''3m'' \<and>
   ToString_FloatingIndexTenor TENOR_6M = ''6m'' \<and>
   ToString_FloatingIndexTenor TENOR_12M = ''12m'' \<and>
   ToString_Currency USD = ''USD'' \<and>
   ToString_Currency EUR = ''EUR'' \<and>
   ToString_Currency GBP = ''GBP'' \<and>
   ToString_SwapType STANDARD = ''Standard'' \<and>
   ToString_SwapType FORWARD = ''Forward'' \<and>
   ToString_SwapType IMM = ''IMM'' \<and>
   ToString_SwapType MAC = ''MAC'' \<and>
   ToString_SwapType BASIS = ''Basis'' \<and>
   ToString_SwapLegType OUTRIGHT = ''Outright'' \<and>
   ToString_SwapLegType CURVE = ''Curve'' \<and>
   ToString_SwapLegType FLY = ''Fly'' \<and>
   inj_on ToString_DayCountConvention {THIRTY_THREE_SIXTY, ACT_THREE_SIXTY} \<and>
   inj_on ToString_PaymentFrequency {QUARTERLY, SEMI_ANNUAL, ANNUAL} \<and>
   inj_on ToString_FloatingIndex {LIBOR, EURIBOR} \<and>
   inj_on ToString_FloatingIndexTenor {TENOR_1M, TENOR_3M, TENOR_6M, TENOR_12M} \<and>
   inj_on ToString_Currency {USD, EUR, GBP} \<and>
   inj_on ToString_SwapType {STANDARD, FORWARD, IMM, MAC, BASIS} \<and>
   inj_on ToString_SwapLegType {OUTRIGHT, CURVE, FLY} \<and>
   distinct [THIRTY_THREE_SIXTY, ACT_THREE_SIXTY] \<and>
   distinct [QUARTERLY, SEMI_ANNUAL, ANNUAL] \<and>
   distinct [LIBOR, EURIBOR] \<and>
   distinct [TENOR_1M, TENOR_3M, TENOR_6M, TENOR_12M] \<and>
   distinct [USD, EUR, GBP] \<and>
   distinct [STANDARD, FORWARD, IMM, MAC, BASIS] \<and>
   distinct [OUTRIGHT, CURVE, FLY]"
  by (simp add: ToString_defs enumerator_defs)

text \<open>
  C7. For a value that is none of the enumerators, each label function takes the
  \<^verbatim>\<open>default\<close> branch and returns the empty string; it has no other exit.
\<close>

theorem C7_label_outside_domain:
  "(dayCount \<notin> {THIRTY_THREE_SIXTY, ACT_THREE_SIXTY} \<longrightarrow>
      ToString_DayCountConvention dayCount = []) \<and>
   (frequency \<notin> {QUARTERLY, SEMI_ANNUAL, ANNUAL} \<longrightarrow>
      ToString_PaymentFrequency frequency = []) \<and>
   (index \<notin> {LIBOR, EURIBOR} \<longrightarrow> ToString_FloatingIndex index = []) \<and>
   (tenor \<notin> {TENOR_1M, TENOR_3M, TENOR_6M, TENOR_12M} \<longrightarrow>
      ToString_FloatingIndexTenor tenor = []) \<and>
   (ccy \<notin> {USD, EUR, GBP} \<longrightarrow> ToString_Currency ccy = []) \<and>
   (swapType' \<notin> {STANDARD, FORWARD, IMM, MAC, BASIS} \<longrightarrow>
      ToString_SwapType swapType' = []) \<and>
   (legType \<notin> {OUTRIGHT, CURVE, FLY} \<longrightarrow> ToString_SwapLegType legType = [])"
  by (simp add: ToString_defs)

theorem C7_label_outside_domain_witness:
  "2 \<notin> {THIRTY_THREE_SIXTY, ACT_THREE_SIXTY} \<and> ToString_DayCountConvention 2 = [] \<and>
   3 \<notin> {QUARTERLY, SEMI_ANNUAL, ANNUAL} \<and> ToString_PaymentFrequency 3 = [] \<and>
   - 1 \<notin> {LIBOR, EURIBOR} \<and> ToString_FloatingIndex (- 1) = [] \<and>
   4 \<notin> {TENOR_1M, TENOR_3M, TENOR_6M, TENOR_12M} \<and> ToString_FloatingIndexTenor 4 = [] \<and>
   3 \<notin> {USD, EUR, GBP} \<and> ToString_Currency 3 = [] \<and>
   7 \<notin> {STANDARD, FORWARD, IMM, MAC, BASIS} \<and> ToString_SwapType 7 = [] \<and>
   3 \<notin> {OUTRIGHT, CURVE, FLY} \<and> ToString_SwapLegType 3 = []"
proof -
  have h:
    "2 \<notin> {THIRTY_THREE_SIXTY, ACT_THREE_SIXTY}"
    "3 \<notin> {QUARTERLY, SEMI_ANNUAL, ANNUAL}"
    "- 1 \<notin> {LIBOR, EURIBOR}"
    "4 \<notin> {TENOR_1M, TENOR_3M, TENOR_6M, TENOR_12M}"
    "3 \<notin> {USD, EUR, GBP}"
    "7 \<notin> {STANDARD, FORWARD, IMM, MAC, BASIS}"
    "3 \<notin> {OUTRIGHT, CURVE, FLY}"
    by (simp_all add: enumerator_defs)
  from C7_label_outside_domain [of 2 3 "- 1" 4 3 7 3] h show ?thesis
    by blast
qed

section \<open>Dates inside the renderers\<close>

text \<open>
  C9. The bond renderer ends with a call of the date routine on the maturity date, and
  the swap renderer calls the same routine on the effective and on the termination date.
  At each of the three places the text the routine appends for a date \<open>d\<close> is
  \<open>date_text d\<close>, whatever the object and the stream are: a bond whose maturity date is
  \<open>d\<close> and a swap whose effective or termination date is \<open>d\<close> show the same text for it.
\<close>

theorem C9_shared_date_routine:
  "out_Bond bond os = out_year_month_day (GetMaturityDate bond) (Bond_upto_maturity bond os) \<and>
   out_IRSwap swap os' =
     IRSwap_after_termination swap
       (out_year_month_day (GetTerminationDate swap) (IRSwap_upto_termination swap os')) \<and>
   IRSwap_upto_termination swap os' =
     out_string '' termination:''
       (out_year_month_day (GetEffectiveDate swap) (IRSwap_upto_effective swap os')) \<and>
   emitted (out_year_month_day d) (Bond_upto_maturity bond os) = date_text d \<and>
   emitted (out_year_month_day d) (IRSwap_upto_effective swap os') = date_text d \<and>
   emitted (out_year_month_day d) (IRSwap_upto_termination swap os') = date_text d"
proof (intro conjI)
  show "out_Bond bond os = out_year_month_day (GetMaturityDate bond) (Bond_upto_maturity bond os)"
    by (simp add: out_Bond_def Bond_upto_maturity_def inserted_def)
next
  show "out_IRSwap swap os' =
     IRSwap_after_termination swap
       (out_year_month_day (GetTerminationDate swap) (IRSwap_upto_termination swap os'))"
    by (simp add: out_IRSwap_def IRSwap_after_termination_def IRSwap_upto_termination_def
        IRSwap_upto_effective_def inserted_def)
next
  show "IRSwap_upto_termination swap os' =
     out_string '' termination:''
       (out_year_month_day (GetEffectiveDate swap) (IRSwap_upto_effective swap os'))"
    by (simp add: IRSwap_upto_termination_def)
next
  have "width (Bond_upto_maturity bond os) = 0"
    by (simp add: Bond_upto_maturity_def stream_defs)
  then show "emitted (out_year_month_day d) (Bond_upto_maturity bond os) = date_text d"
    by (rule emitted_date)
next
  have "width (IRSwap_upto_effective swap os') = 0"
    by (simp add: IRSwap_upto_effective_def stream_defs)
  then show "emitted (out_year_month_day d) (IRSwap_upto_effective swap os') = date_text d"
    by (rule emitted_date)
next
  have "width (IRSwap_upto_termination swap os') = 0"
    by (simp add: IRSwap_upto_termination_def stream_defs)
  then show "emitted (out_year_month_day d) (IRSwap_upto_termination swap os') = date_text d"
    by (rule emitted_date)
qed

text \<open>
  C10. The renderers read neither the product identifier nor the identifier scheme of a
  bond: two bonds built from arguments that differ in these two only, and two swaps
  built from arguments that differ in the product identifier only, render alike on the
  same stream.
\<close>

theorem C10_rendering_ignores_identifiers:
  "out_Bond (Bond_ctor productId1 bondIdType1 ticker' coupon' maturityDate') os =
   out_Bond (Bond_ctor productId2 bondIdType2 ticker' coupon' maturityDate') os \<and>
   out_IRSwap (IRSwap_ctor swapId1 fixedDc floatDc freq idx tenor eff term ccy yrs st lt) os' =
   out_IRSwap (IRSwap_ctor swapId2 fixedDc floatDc freq idx tenor eff term ccy yrs st lt) os'"
  by (simp add: out_Bond_eq out_IRSwap_eq ctor_defs)

end
